theory Spec2Isabelle
  imports Main "HOL-Library.Finite_Map" "HOL-Library.Sublist"
begin

section \<open>Python values used by bot.py\<close>

text \<open>
  A Python \<open>str\<close> is modelled as a \<open>string\<close>; each \<open>char\<close> stands for one code point in
  the range U+0000 .. U+00FF. The two character classes below are the ones Python 3 uses on
  that range: \<open>str.isspace\<close> (which is also the class \<open>\s\<close> of \<open>re\<close> and the set removed by
  \<open>str.strip()\<close>), and the class \<open>\w\<close> of \<open>re\<close> (alphanumeric characters and the underscore).
\<close>

definition isspace :: "char \<Rightarrow> bool" where
  "isspace c = (c \<in> {CHR 0x09, CHR 0x0A, CHR 0x0B, CHR 0x0C, CHR 0x0D, CHR 0x1C, CHR 0x1D,
      CHR 0x1E, CHR 0x1F, CHR 0x20, CHR 0x85, CHR 0xA0})"

definition isword :: "char \<Rightarrow> bool" where
  "isword c = (let n = (of_char c :: nat) in
     (48 \<le> n \<and> n \<le> 57) \<or> (65 \<le> n \<and> n \<le> 90) \<or> n = 95 \<or> (97 \<le> n \<and> n \<le> 122) \<or>
     n = 170 \<or> n = 178 \<or> n = 179 \<or> n = 181 \<or> n = 185 \<or> n = 186 \<or>
     (188 \<le> n \<and> n \<le> 190) \<or> (192 \<le> n \<and> n \<le> 214) \<or> (216 \<le> n \<and> n \<le> 246) \<or>
     (248 \<le> n \<and> n \<le> 255))"

text \<open>\<open>s.strip()\<close>: leading and trailing whitespace removed.\<close>

definition lstrip :: "string \<Rightarrow> string" where
  "lstrip s = dropWhile isspace s"

definition rstrip :: "string \<Rightarrow> string" where
  "rstrip s = rev (dropWhile isspace (rev s))"

definition strip :: "string \<Rightarrow> string" where
  "strip s = rstrip (lstrip s)"

text \<open>
  \<open>s.replace(old, new)\<close>: every occurrence of \<open>old\<close>, found from left to right without
  overlap, is replaced by \<open>new\<close>. (With an empty \<open>old\<close> Python puts \<open>new\<close> before every
  character and at the end.)
\<close>

function str_replace :: "string \<Rightarrow> string \<Rightarrow> string \<Rightarrow> string" where
  "str_replace [] old new = (if old = [] then new else [])"
| "str_replace (c # cs) old new =
     (if old = [] then new @ c # str_replace cs old new
      else if prefix old (c # cs) then new @ str_replace (drop (length old) (c # cs)) old new
      else c # str_replace cs old new)"
  by pat_completeness auto
termination
  by (relation "measure (\<lambda>(s, old, new). length s)") (auto simp: neq_Nil_conv)

text \<open>\<open>str(n)\<close> for an integer: its decimal numeral.\<close>

fun str_nat :: "nat \<Rightarrow> string" where
  "str_nat n = (if n < 10 then [''0123456789'' ! n]
                else str_nat (n div 10) @ [''0123456789'' ! (n mod 10)])"

declare str_nat.simps [simp del]

definition str_int :: "int \<Rightarrow> string" where
  "str_int i = (if i < 0 then CHR ''-'' # str_nat (nat (- i)) else str_nat (nat i))"

text \<open>
  The values \<open>json.loads\<close> and \<open>Response.json()\<close> produce. A float is kept as mantissa and
  exponent (or as one of the special values); the bot only ever tests it for truth.
\<close>

datatype pyfloat = Finite int int | Infinite bool | NaN

datatype json = JNull | JBool bool | JInt int | JFloat pyfloat | JStr string
  | JArr "json list" | JObj "(string, json) fmap"

text \<open>Python's truth value of such a value (\<open>if token:\<close>); \<open>JNull\<close> is \<open>None\<close>.\<close>

fun truthy :: "json \<Rightarrow> bool" where
  "truthy JNull = False"
| "truthy (JBool b) = b"
| "truthy (JInt i) = (i \<noteq> 0)"
| "truthy (JFloat (Finite m e)) = (m \<noteq> 0)"
| "truthy (JFloat _) = True"
| "truthy (JStr s) = (s \<noteq> [])"
| "truthy (JArr xs) = (xs \<noteq> [])"
| "truthy (JObj d) = (d \<noteq> fmempty)"

text \<open>\<open>d.get(k)\<close> and \<open>d.get(k, default)\<close> on a dict.\<close>

definition dict_get :: "(string, json) fmap \<Rightarrow> string \<Rightarrow> json" where
  "dict_get d k = (case fmlookup d k of None \<Rightarrow> JNull | Some v \<Rightarrow> v)"

definition dict_get_default :: "(string, json) fmap \<Rightarrow> string \<Rightarrow> json \<Rightarrow> json" where
  "dict_get_default d k dflt = (case fmlookup d k of None \<Rightarrow> dflt | Some v \<Rightarrow> v)"

section \<open>The regular expressions of bot.py\<close>

text \<open>
  \<open>https?://[^\s]+\<close> matched at the start of \<open>s\<close>: one of the two schemes followed by at
  least one character that is not whitespace, extended greedily.
\<close>

definition match_url :: "string \<Rightarrow> string option" where
  "match_url s =
     (let scheme = (if prefix ''http://'' s then Some ''http://''
                    else if prefix ''https://'' s then Some ''https://'' else None)
      in case scheme of
           None \<Rightarrow> None
         | Some sch \<Rightarrow>
             (let body = takeWhile (\<lambda>c. \<not> isspace c) (drop (length sch) s)
              in if body = [] then None else Some (sch @ body)))"

text \<open>\<open>re.search(r'(https?://[^\s]+)', text)\<close>: the leftmost match, \<open>group(0)\<close>.\<close>

fun re_search_url :: "string \<Rightarrow> string option" where
  "re_search_url [] = None"
| "re_search_url (c # cs) =
     (case match_url (c # cs) of Some u \<Rightarrow> Some u | None \<Rightarrow> re_search_url cs)"

text \<open>\<open>re.search(r'https?://', text)\<close> as a truth value.\<close>

fun re_search_scheme :: "string \<Rightarrow> bool" where
  "re_search_scheme [] = False"
| "re_search_scheme (c # cs) =
     (prefix ''http://'' (c # cs) \<or> prefix ''https://'' (c # cs) \<or> re_search_scheme cs)"

text \<open>
  \<open>re.findall(r'\+(\w+)', s)\<close>: the groups of all matches, from left to right, without
  overlap; each match is a plus sign and the longest run of word characters after it.
\<close>

function findall_labels :: "string \<Rightarrow> string list" where
  "findall_labels [] = []"
| "findall_labels (c # cs) =
     (if c = CHR ''+'' \<and> takeWhile isword cs \<noteq> []
      then takeWhile isword cs # findall_labels (dropWhile isword cs)
      else findall_labels cs)"
  by pat_completeness auto
termination
  by (relation "measure length") (auto simp: less_Suc_eq_le length_dropWhile_le)

section \<open>MessageParser: extract_url_title_labels\<close>

definition extract_url_title_labels :: "string \<Rightarrow> string option \<times> string option \<times> string list" where
  "extract_url_title_labels text =
     (case re_search_url text of
        None \<Rightarrow> (None, None, [])
      | Some url \<Rightarrow>
          (let after_url = strip (str_replace text url []);
               labels = findall_labels after_url;
               after_url = foldl (\<lambda>a lbl. str_replace a (CHR ''+'' # lbl) []) after_url labels;
               title = strip after_url
           in (Some url, (if title \<noteq> [] then Some title else None), labels)))"

section \<open>CredentialStore: PersistentDict and USER_TOKEN_MAP\<close>

text \<open>
  What the file \<open>.user_tokens.json\<close> holds: nothing (the file does not exist), text that
  cannot be read or parsed, or the document that \<open>json.loads\<close> makes of its text. The text
  layer of \<open>json.dumps\<close> and \<open>json.loads\<close> is the library's: a written document is
  represented by the value it denotes.
\<close>

datatype file_content = Missing | Unparseable | Document json

text \<open>
  The process state: the entries of \<open>USER_TOKEN_MAP\<close> (keys are \<open>str(user_id)\<close>) and the
  content of its file.
\<close>

record state =
  tokens :: "(string, json) fmap"
  disk :: file_content

datatype exn = OSError | RequestException | JSONDecodeError | AttributeError | KeyError

record completed_process =
  returncode :: int
  stderr :: string

text \<open>
  A \<open>requests.Response\<close>: \<open>lookup_header\<close> is \<open>r.headers.get\<close>, \<open>json_body\<close> is \<open>r.json()\<close>
  (\<open>None\<close> when decoding raises), \<open>body_text\<close> is \<open>r.text\<close>.
\<close>

record response =
  status_code :: int
  lookup_header :: "string \<Rightarrow> string option"
  json_body :: "json option"
  body_text :: string

text \<open>
  The configuration and the outside world. A subprocess or an HTTP call answers \<open>None\<close> when
  the library call raises (\<open>OSError\<close> for a program that cannot be started,
  \<open>requests.RequestException\<close>). \<open>write_failure\<close> says whether writing a document over the
  given file content fails, and what the file holds then. \<open>py_str\<close> is Python's text for a
  value that is not a string, as an f-string prints it.
\<close>

record env =
  READECK_CONFIG :: "string option"
  READECK_BASE_URL :: string
  subprocess_run :: "string list \<Rightarrow> completed_process option"
  requests_post :: "string \<Rightarrow> (string \<times> string) list \<Rightarrow> json \<Rightarrow> response option"
  requests_get :: "string \<Rightarrow> (string \<times> string) list \<Rightarrow> response option"
  write_failure :: "file_content \<Rightarrow> json \<Rightarrow> file_content option"
  py_str :: "json \<Rightarrow> string"

text \<open>
  What a handler does that can be observed from outside, in order: programs started, HTTP
  requests sent, the token file written, replies sent to the chat. (Log lines are left out.)
\<close>

datatype parse_mode = MARKDOWN

datatype event =
    Subprocess "string list"
  | HttpPost string "(string \<times> string) list" json
  | HttpGet string "(string \<times> string) list"
  | WriteFile json
  | Reply string "parse_mode option"

record result =
  final :: state
  trace :: "event list"
  raised :: "exn option"

definition returns :: "state \<Rightarrow> event list \<Rightarrow> result" where
  "returns s tr = \<lparr>final = s, trace = tr, raised = None\<rparr>"

definition raises :: "state \<Rightarrow> event list \<Rightarrow> exn \<Rightarrow> result" where
  "raises s tr e = \<lparr>final = s, trace = tr, raised = Some e\<rparr>"

definition after :: "event list \<Rightarrow> result \<Rightarrow> result" where
  "after tr r = r\<lparr>trace := tr @ trace r\<rparr>"

definition reply_text :: "string \<Rightarrow> event" where
  "reply_text m = Reply m None"

definition format_value :: "env \<Rightarrow> json \<Rightarrow> string" where
  "format_value E v = (case v of JStr s \<Rightarrow> s | _ \<Rightarrow> py_str E v)"

text \<open>\<open>PersistentDict.__init__\<close>: the entries a new instance starts with.\<close>

definition PersistentDict_init :: "file_content \<Rightarrow> (string, json) fmap" where
  "PersistentDict_init f = (case f of Document (JObj data) \<Rightarrow> data | _ \<Rightarrow> fmempty)"

text \<open>\<open>_save\<close>, \<open>__setitem__\<close>, \<open>__delitem__\<close> and the inherited \<open>get\<close>.\<close>

definition PersistentDict_save :: "env \<Rightarrow> state \<Rightarrow> result" where
  "PersistentDict_save E s =
     (let doc = JObj (tokens s) in
      case write_failure E (disk s) doc of
        None \<Rightarrow> returns (s\<lparr>disk := Document doc\<rparr>) [WriteFile doc]
      | Some junk \<Rightarrow> raises (s\<lparr>disk := junk\<rparr>) [WriteFile doc] OSError)"

definition PersistentDict_setitem :: "env \<Rightarrow> state \<Rightarrow> string \<Rightarrow> json \<Rightarrow> result" where
  "PersistentDict_setitem E s key v = PersistentDict_save E (s\<lparr>tokens := fmupd key v (tokens s)\<rparr>)"

definition PersistentDict_delitem :: "env \<Rightarrow> state \<Rightarrow> string \<Rightarrow> result" where
  "PersistentDict_delitem E s key =
     (if key |\<in>| fmdom (tokens s)
      then PersistentDict_save E (s\<lparr>tokens := fmdrop key (tokens s)\<rparr>)
      else raises s [] KeyError)"

definition PersistentDict_get :: "state \<Rightarrow> string \<Rightarrow> json" where
  "PersistentDict_get s key = dict_get (tokens s) key"

text \<open>The update a handler receives: \<open>update.effective_user.id\<close> and \<open>update.message.text\<close>.\<close>

record update =
  effective_user_id :: int
  message_text :: string

section \<open>RegistrationService\<close>

text \<open>
  Line 193 of bot.py. Python reads the expression as
  \<open>(["readeck", "user"] + ['-config', READECK_CONFIG]) if READECK_CONFIG else ([] + ["-u", ...])\<close>:
  the conditional expression binds weaker than \<open>+\<close>.
\<close>

definition local_command :: "string option \<Rightarrow> string \<Rightarrow> string \<Rightarrow> string list" where
  "local_command config username password =
     (case config of
        None \<Rightarrow> [] @ [''-u'', username, ''-p'', password]
      | Some path \<Rightarrow>
          if path \<noteq> [] then [''readeck'', ''user''] @ [''-config'', path]
          else [] @ [''-u'', username, ''-p'', password])"

definition docker_command :: "string \<Rightarrow> string \<Rightarrow> string list" where
  "docker_command username password =
     [''docker'', ''run'', ''codeberg.org/readeck/readeck:latest'',
      ''readeck'', ''user'', ''-u'', username, ''-p'', password]"

text \<open>
  Lines 208 to 226: the token exchange that follows a successful provisioning.
\<close>

definition auth_url :: "env \<Rightarrow> string" where
  "auth_url E = READECK_BASE_URL E @ ''/api/auth''"

definition auth_payload :: "string \<Rightarrow> string \<Rightarrow> json" where
  "auth_payload username password =
     JObj (fmap_of_list [(''application'', JStr ''telegram bot''),
       (''username'', JStr username), (''password'', JStr password)])"

definition auth_headers :: "(string \<times> string) list" where
  "auth_headers = [(''accept'', ''application/json''), (''content-type'', ''application/json'')]"

definition fetch_token :: "env \<Rightarrow> update \<Rightarrow> string \<Rightarrow> string \<Rightarrow> state \<Rightarrow> result" where
  "fetch_token E upd username password s =
     (let auth_url = auth_url E;
          payload = auth_payload username password;
          headers = auth_headers
      in after [HttpPost auth_url headers payload]
        (case requests_post E auth_url headers payload of
           None \<Rightarrow> raises s [] RequestException
         | Some r \<Rightarrow>
             if 200 \<le> status_code r \<and> status_code r < 300 then
               (case json_body r of
                  None \<Rightarrow> raises s [] JSONDecodeError
                | Some (JObj data) \<Rightarrow>
                    (let token = dict_get data ''token'' in
                     if truthy token then
                       (let w = PersistentDict_setitem E s (str_int (effective_user_id upd)) token in
                        case raised w of
                          Some e \<Rightarrow> w
                        | None \<Rightarrow>
                            returns (final w) (trace w @
                              [reply_text ''Registration successful! Your token has been saved.'']))
                     else returns s
                       [reply_text ''Registration succeeded but failed to retrieve token.''])
                | Some _ \<Rightarrow> raises s [] AttributeError)
             else returns s [reply_text ''Having troubles now... try later.'']))"

definition register_and_fetch_token :: "env \<Rightarrow> update \<Rightarrow> string \<Rightarrow> string \<Rightarrow> state \<Rightarrow> result" where
  "register_and_fetch_token E upd username password s =
     (let command = local_command (READECK_CONFIG E) username password in
      after [Subprocess command]
        (case subprocess_run E command of
           None \<Rightarrow> raises s [] OSError
         | Some result \<Rightarrow>
             if returncode result \<noteq> 0 then
               (let docker_command = docker_command username password in
                after [Subprocess docker_command]
                  (case subprocess_run E docker_command of
                     None \<Rightarrow> raises s [] OSError
                   | Some result \<Rightarrow>
                       if returncode result \<noteq> 0
                       then returns s
                         [reply_text (''Registration failed: '' @ strip (stderr result))]
                       else fetch_token E upd username password s))
             else fetch_token E upd username password s))"

text \<open>
  \<open>register_command\<close>; \<open>args\<close> is \<open>context.args\<close>, which is \<open>None\<close> or a list.
\<close>

definition register_usage :: string where
  "register_usage = ''Usage: /register <user> <password>'' @ [CHR 0x0A] @
     ''Usage: /register <password> (your Telegram user ID will be used as username).''"

definition register_command :: "env \<Rightarrow> update \<Rightarrow> string list option \<Rightarrow> state \<Rightarrow> result" where
  "register_command E upd args s =
     (let user_id = effective_user_id upd in
      case args of
        None \<Rightarrow> register_and_fetch_token E upd (str_int user_id) (str_int user_id) s
      | Some [] \<Rightarrow> register_and_fetch_token E upd (str_int user_id) (str_int user_id) s
      | Some [a] \<Rightarrow> register_and_fetch_token E upd (str_int user_id) a s
      | Some [a, b] \<Rightarrow> register_and_fetch_token E upd a b s
      | Some _ \<Rightarrow> returns s [reply_text register_usage])"

text \<open>\<open>token_command\<close>.\<close>

definition token_command :: "env \<Rightarrow> update \<Rightarrow> string list option \<Rightarrow> state \<Rightarrow> result" where
  "token_command E upd args s =
     (let user_id = effective_user_id upd in
      case args of
        Some [token] \<Rightarrow>
          (let w = PersistentDict_setitem E s (str_int user_id) (JStr token) in
           case raised w of
             Some e \<Rightarrow> w
           | None \<Rightarrow> returns (final w) (trace w @ [reply_text ''Your Readeck token has been saved.'']))
      | _ \<Rightarrow> returns s [reply_text ''Usage: /token <YOUR_READECK_TOKEN>''])"

section \<open>BookmarkService: save_bookmark\<close>

definition bookmark_data :: "string \<Rightarrow> string option \<Rightarrow> string list \<Rightarrow> json" where
  "bookmark_data url title labels =
     (let data = fmupd ''url'' (JStr url) fmempty;
          data = (case title of
                    Some t \<Rightarrow> if t \<noteq> [] then fmupd ''title'' (JStr t) data else data
                  | None \<Rightarrow> data);
          data = (if labels \<noteq> [] then fmupd ''labels'' (JArr (map JStr labels)) data else data)
      in JObj data)"

definition bearer_headers :: "env \<Rightarrow> json \<Rightarrow> string \<Rightarrow> (string \<times> string) list" where
  "bearer_headers E token accept =
     [(''Authorization'', ''Bearer '' @ format_value E token), (''accept'', accept)]"

definition save_bookmark ::
  "env \<Rightarrow> update \<Rightarrow> string \<Rightarrow> string option \<Rightarrow> string list \<Rightarrow> json \<Rightarrow> state \<Rightarrow> result" where
  "save_bookmark E upd url title labels token s =
     (let data = bookmark_data url title labels;
          headers = bearer_headers E token ''application/json'' @
                      [(''content-type'', ''application/json'')];
          post_url = READECK_BASE_URL E @ ''/api/bookmarks''
      in after [HttpPost post_url headers data]
        (case requests_post E post_url headers data of
           None \<Rightarrow> returns s [reply_text ''Having troubles now... try later.'']
         | Some r \<Rightarrow>
             if status_code r = 202 then
               (case lookup_header r ''Bookmark-Id'' of
                  None \<Rightarrow> returns s [reply_text ''Saved bookmark but missing Bookmark-Id header.'']
                | Some bookmark_id \<Rightarrow>
                    if bookmark_id = [] then
                      returns s [reply_text ''Saved bookmark but missing Bookmark-Id header.'']
                    else
                      (let get_url = READECK_BASE_URL E @ ''/api/bookmarks/'' @ bookmark_id in
                       after [HttpGet get_url headers]
                         (case requests_get E get_url headers of
                            None \<Rightarrow> returns s [reply_text ''Having troubles now... try later.'']
                          | Some details \<Rightarrow>
                              if status_code details = 200 then
                                (case json_body details of
                                   None \<Rightarrow> raises s [] JSONDecodeError
                                 | Some (JObj info) \<Rightarrow>
                                     (let real_title = dict_get_default info ''title'' (JStr ''No Title'');
                                          href = dict_get_default info ''href'' (JStr [])
                                      in if truthy href then
                                           returns s [Reply
                                             (''Saved: ['' @ format_value E real_title @ '']('' @
                                              format_value E href @ '')'' @ [CHR 0x0A, CHR 0x0A] @
                                              ''Use `/md_'' @ bookmark_id @
                                              ''` to view the article's markdown.'')
                                             (Some MARKDOWN)]
                                         else
                                           returns s [reply_text
                                             (''Saved: '' @ format_value E real_title @
                                              [CHR 0x0A, CHR 0x0A] @
                                              ''Use `/md_'' @ bookmark_id @
                                              ''` to view the article's markdown.'')])
                                 | Some _ \<Rightarrow> raises s [] AttributeError)
                              else returns s
                                [reply_text ''Saved bookmark but failed to retrieve details.''])))
             else returns s [reply_text ''Failed to save bookmark.'']))"

section \<open>ArticleFetchService\<close>

text \<open>
  \<open>send_long_message\<close>: the slices \<open>text[start:start+limit]\<close> for \<open>start\<close> in
  \<open>range(0, len(text), limit)\<close>, each sent as one reply. \<open>chunks_from\<close> is the loop from
  \<open>start\<close> on.
\<close>

function chunks_from :: "nat \<Rightarrow> nat \<Rightarrow> 'a list \<Rightarrow> 'a list list" where
  "chunks_from limit start text =
     (if 0 < limit \<and> start < length text
      then take limit (drop start text) # chunks_from limit (start + limit) text
      else [])"
  by pat_completeness auto
termination
  by (relation "measure (\<lambda>(limit, start, text). length text - start)") auto

declare chunks_from.simps [simp del]

definition message_limit :: nat where
  "message_limit = 4000"

definition telegram_message_cap :: nat where
  "telegram_message_cap = 4096"

definition send_long_message :: "string \<Rightarrow> event list" where
  "send_long_message text = map reply_text (chunks_from message_limit 0 text)"

definition fetch_article_markdown :: "env \<Rightarrow> update \<Rightarrow> string \<Rightarrow> json \<Rightarrow> state \<Rightarrow> result" where
  "fetch_article_markdown E upd bookmark_id token s =
     (let headers = bearer_headers E token ''application/epub+zip'';
          get_url = READECK_BASE_URL E @ ''/api/bookmarks/'' @ bookmark_id @ ''/article.md''
      in after [HttpGet get_url headers]
        (case requests_get E get_url headers of
           None \<Rightarrow> returns s [reply_text ''Having troubles now... try later.'']
         | Some r \<Rightarrow>
             if status_code r = 200 then returns s (send_long_message (body_text r))
             else returns s [reply_text ''Failed to retrieve the article markdown.'']))"

section \<open>Dispatcher: handle_message and dynamic_md_handler\<close>

definition no_token_message :: string where
  "no_token_message = ''I don't have your Readeck token. '' @
     ''Set it with /token <YOUR_TOKEN> or /register <password>.''"

definition no_url_message :: string where
  "no_url_message = ''I couldn't find a valid URL.''"

definition unrecognized_input_message :: string where
  "unrecognized_input_message = ''I don't recognize this input.'' @ [CHR 0x0A] @
     ''After saving a bookmark, use the provided /md_<bookmark_id> command to view its markdown.''"

definition handle_message :: "env \<Rightarrow> update \<Rightarrow> state \<Rightarrow> result" where
  "handle_message E upd s =
     (let user_id = effective_user_id upd;
          text = strip (message_text upd);
          token = PersistentDict_get s (str_int user_id)
      in if \<not> truthy token then returns s [reply_text no_token_message]
         else if re_search_scheme text then
           (case extract_url_title_labels text of
              (None, title, labels) \<Rightarrow> returns s [reply_text no_url_message]
            | (Some url, title, labels) \<Rightarrow>
                if url = [] then returns s [reply_text no_url_message]
                else save_bookmark E upd url title labels token s)
         else returns s [reply_text unrecognized_input_message])"

definition dynamic_md_handler :: "env \<Rightarrow> update \<Rightarrow> state \<Rightarrow> result" where
  "dynamic_md_handler E upd s =
     (let text = strip (message_text upd) in
      if prefix ''/md_'' text then
        (let bookmark_id = drop (length ''/md_'') text;
             user_id = effective_user_id upd;
             token = PersistentDict_get s (str_int user_id)
         in if \<not> truthy token then returns s [reply_text no_token_message]
            else fetch_article_markdown E upd bookmark_id token s)
      else returns s [reply_text
        (''I don't recognize this command.'' @ [CHR 0x0A] @
         ''If you want the markdown of a saved article, use /md_<bookmark_id>.'')])"

section \<open>Auxiliary notions for the properties\<close>

text \<open>The events that reach the backend: a started program or an HTTP request.\<close>

fun is_backend_call :: "event \<Rightarrow> bool" where
  "is_backend_call (Subprocess cmd) = True"
| "is_backend_call (HttpPost url headers body) = True"
| "is_backend_call (HttpGet url headers) = True"
| "is_backend_call (WriteFile doc) = False"
| "is_backend_call (Reply m mode) = False"

text \<open>The token exchange, the replies and the writes of the token file among the events.\<close>

fun is_http_post :: "event \<Rightarrow> bool" where
  "is_http_post (HttpPost url headers body) = True"
| "is_http_post e = False"

fun is_reply :: "event \<Rightarrow> bool" where
  "is_reply (Reply m mode) = True"
| "is_reply e = False"

fun is_write :: "event \<Rightarrow> bool" where
  "is_write (WriteFile doc) = True"
| "is_write e = False"

text \<open>
  Provisioning succeeds: the local command ends with exit status 0, or it ends with another
  status and the container command ends with 0.
\<close>

definition provisioning_succeeds :: "env \<Rightarrow> string \<Rightarrow> string \<Rightarrow> bool" where
  "provisioning_succeeds E username password =
     (case subprocess_run E (local_command (READECK_CONFIG E) username password) of
        None \<Rightarrow> False
      | Some r1 \<Rightarrow>
          if returncode r1 = 0 then True
          else (case subprocess_run E (docker_command username password) of
                  None \<Rightarrow> False
                | Some r2 \<Rightarrow> returncode r2 = 0))"

text \<open>
  Line 78 of bot.py in a new process: \<open>USER_TOKEN_MAP = PersistentDict(".user_tokens.json")\<close>
  is built again from what the file holds.
\<close>

definition restart :: "state \<Rightarrow> state" where
  "restart s = \<lparr>tokens = PersistentDict_init (disk s), disk = disk s\<rparr>"


section \<open>The parser as specified\<close>







text \<open>A string that does not begin with a word character.\<close>

definition starts_nonword :: "string \<Rightarrow> bool" where
  "starts_nonword s = (s = [] \<or> \<not> isword (hd s))"


section \<open>Example worlds and states\<close>

text \<open>
  A concrete world for examples: no configuration path, and neither a program nor the
  backend can be reached; the token file can be written. Examples change single fields.
\<close>

definition unreachable_env :: env where
  "unreachable_env = \<lparr>READECK_CONFIG = None, READECK_BASE_URL = ''http://localhost:8000'',
     subprocess_run = (\<lambda>cmd. None), requests_post = (\<lambda>url headers body. None),
     requests_get = (\<lambda>url headers. None), write_failure = (\<lambda>old doc. None),
     py_str = (\<lambda>v. [])\<rparr>"

definition empty_state :: state where
  "empty_state = \<lparr>tokens = fmempty, disk = Missing\<rparr>"

text \<open>A state in which the user with id 42 has a token.\<close>

definition alice_state :: state where
  "alice_state = \<lparr>tokens = fmupd ''42'' (JStr ''tok'') fmempty, disk = Missing\<rparr>"

text \<open>
  Further example worlds: programs end with the given exit status and a line on stderr, and
  the backend gives the given answers to POST and GET.
\<close>

definition example_env :: "int \<Rightarrow> int \<Rightarrow> response option \<Rightarrow> response option \<Rightarrow> env" where
  "example_env local_status docker_status post_answer get_answer =
     unreachable_env\<lparr>
       subprocess_run := (\<lambda>cmd. case cmd of
           [] \<Rightarrow> None
         | program # arguments \<Rightarrow>
             if program = ''docker''
             then Some \<lparr>returncode = docker_status,
                        stderr = ''docker: no such image'' @ [CHR 0x0A]\<rparr>
             else Some \<lparr>returncode = local_status,
                        stderr = ''readeck: no configuration'' @ [CHR 0x0A]\<rparr>),
       requests_post := (\<lambda>url headers body. post_answer),
       requests_get := (\<lambda>url headers. get_answer)\<rparr>"

definition json_response :: "int \<Rightarrow> (string \<times> json) list \<Rightarrow> response" where
  "json_response status entries =
     \<lparr>status_code = status, lookup_header = (\<lambda>name. None),
      json_body = Some (JObj (fmap_of_list entries)), body_text = []\<rparr>"

definition alice :: update where
  "alice = \<lparr>effective_user_id = 42, message_text = ''/register alice pw''\<rparr>"


text \<open>
  Two worlds in which a program cannot be started. In the first there is no local program to
  run, while the container command would end with exit status 0. In the second a configuration
  path is set and \<open>readeck\<close> ends with status 1, while \<open>docker\<close> cannot be started.
\<close>

definition missing_cli_env :: env where
  "missing_cli_env = unreachable_env\<lparr>
     subprocess_run := (\<lambda>cmd. case cmd of
         [] \<Rightarrow> None
       | program # arguments \<Rightarrow>
           if program = ''docker'' then Some \<lparr>returncode = 0, stderr = []\<rparr> else None)\<rparr>"

definition missing_docker_env :: env where
  "missing_docker_env = unreachable_env\<lparr>
     READECK_CONFIG := Some ''/etc/readeck.toml'',
     subprocess_run := (\<lambda>cmd. case cmd of
         [] \<Rightarrow> None
       | program # arguments \<Rightarrow>
           if program = ''readeck''
           then Some \<lparr>returncode = 1, stderr = ''readeck: no user given'' @ [CHR 0x0A]\<rparr>
           else None)\<rparr>"

section \<open>Properties of the chunking loop\<close>

lemma chunks_from_concat: "0 < limit \<Longrightarrow> concat (chunks_from limit start xs) = drop start xs"
proof (induction limit start xs rule: chunks_from.induct)
  case (1 limit start xs)
  show ?case
  proof (cases "start < length xs")
    case True
    have "concat (chunks_from limit start xs) =
        take limit (drop start xs) @ drop (start + limit) xs"
      using True 1 by (simp add: chunks_from.simps [of limit start])
    also have "\<dots> = drop start xs"
      by (metis add.commute append_take_drop_id drop_drop)
    finally show ?thesis .
  next
    case False
    then show ?thesis by (simp add: chunks_from.simps [of limit start])
  qed
qed

lemma chunks_from_bounds:
  "c \<in> set (chunks_from limit start xs) \<Longrightarrow> c \<noteq> [] \<and> length c \<le> limit"
proof (induction limit start xs rule: chunks_from.induct)
  case (1 limit start xs)
  then show ?case
    by (cases "0 < limit \<and> start < length xs")
       (auto simp: chunks_from.simps [of limit start])
qed

lemma ceil_div_step:
  fixes n limit :: nat
  assumes "0 < limit" "0 < n"
  shows "Suc ((n - limit + limit - 1) div limit) = (n + limit - 1) div limit"
proof (cases "limit \<le> n")
  case True
  have a: "n - limit + limit - 1 = n - 1"
    using True by arith
  have b: "n + limit - 1 = (n - 1) + limit"
    using assms by arith
  have "(n - 1 + limit) div limit = Suc ((n - 1) div limit)"
    using assms(1) by simp
  then show ?thesis
    by (simp only: a b)
next
  case False
  have a: "n - limit + limit - 1 = limit - 1"
    using False by arith
  have "limit - 1 < limit" using assms(1) by arith
  then have c: "(limit - 1) div limit = 0"
    by (rule div_less)
  have lo: "limit * 1 \<le> n + limit - 1" using assms by arith
  have hi: "n + limit - 1 < limit * Suc 1" using False assms by arith
  have b: "(n + limit - 1) div limit = 1"
    using lo hi by (rule div_nat_eqI)
  show ?thesis
    by (simp only: a b c)
qed

lemma chunks_from_length:
  "0 < limit \<Longrightarrow> length (chunks_from limit start xs) = (length xs - start + limit - 1) div limit"
proof (induction limit start xs rule: chunks_from.induct)
  case (1 limit start xs)
  show ?case
  proof (cases "start < length xs")
    case True
    have unfold: "chunks_from limit start xs =
        take limit (drop start xs) # chunks_from limit (start + limit) xs"
      using True \<open>0 < limit\<close> by (simp add: chunks_from.simps [of limit start])
    have ih: "length (chunks_from limit (start + limit) xs) =
        (length xs - (start + limit) + limit - 1) div limit"
      using 1 True by blast
    have sub: "length xs - (start + limit) = (length xs - start) - limit"
      by arith
    have pos: "0 < length xs - start" using True by arith
    have "length (chunks_from limit start xs) =
        Suc (((length xs - start) - limit + limit - 1) div limit)"
      by (simp only: unfold ih sub list.size length_Cons)
    also have "\<dots> = (length xs - start + limit - 1) div limit"
      using \<open>0 < limit\<close> pos by (rule ceil_div_step)
    finally show ?thesis .
  next
    case False
    have "chunks_from limit start xs = []"
      using False by (simp add: chunks_from.simps [of limit start])
    moreover have "length xs - start = 0" using False by arith
    moreover have "(limit - 1) div limit = 0"
      using \<open>0 < limit\<close> by (intro div_less) arith
    ultimately show ?thesis by simp
  qed
qed


lemma chunks_from_nth:
  "i < length (chunks_from limit start xs) \<Longrightarrow>
   chunks_from limit start xs ! i = take limit (drop (start + i * limit) xs)"
proof (induction limit start xs arbitrary: i rule: chunks_from.induct)
  case (1 limit start xs)
  show ?case
  proof (cases "0 < limit \<and> start < length xs")
    case True
    then have eq: "chunks_from limit start xs =
        take limit (drop start xs) # chunks_from limit (start + limit) xs"
      by (simp add: chunks_from.simps [of limit start])
    show ?thesis
    proof (cases i)
      case 0
      then show ?thesis using eq by simp
    next
      case (Suc j)
      then have "j < length (chunks_from limit (start + limit) xs)"
        using "1.prems" eq by simp
      then have "chunks_from limit (start + limit) xs ! j =
          take limit (drop (start + limit + j * limit) xs)"
        using "1.IH" True by blast
      then show ?thesis using eq Suc by (simp add: add.assoc)
    qed
  next
    case False
    then show ?thesis using "1.prems" chunks_from.simps [of limit start xs] by auto
  qed
qed

text \<open>
  Claim C7. The chunks \<open>send_long_message\<close> sends for an article text are, in order, the
  contiguous slices of the text at offsets \<open>0, limit, 2 * limit, ...\<close>: their concatenation
  is the text, none is empty or longer than the limit of 4000 characters, which lies below
  the transport's cap of 4096, and there are \<open>ceil(length / limit)\<close> of them.
\<close>

theorem send_long_message_chunks:
  "send_long_message xs = map reply_text (chunks_from message_limit 0 xs) \<and>
   concat (chunks_from message_limit 0 xs) = xs \<and>
   (\<forall>c \<in> set (chunks_from message_limit 0 xs). c \<noteq> [] \<and> length c \<le> message_limit) \<and>
   length (chunks_from message_limit 0 xs) = (length xs + message_limit - 1) div message_limit \<and>
   (\<forall>i < length (chunks_from message_limit 0 xs).
      chunks_from message_limit 0 xs ! i = take message_limit (drop (i * message_limit) xs)) \<and>
   message_limit < telegram_message_cap"
proof -
  have pos: "0 < message_limit" by (simp add: message_limit_def)
  have "concat (chunks_from message_limit 0 xs) = xs"
    using chunks_from_concat [OF pos, of 0 xs] by simp
  moreover have "length (chunks_from message_limit 0 xs) = (length xs + message_limit - 1) div message_limit"
    using chunks_from_length [OF pos, of 0 xs] by simp
  moreover have "\<forall>i < length (chunks_from message_limit 0 xs).
      chunks_from message_limit 0 xs ! i = take message_limit (drop (i * message_limit) xs)"
    using chunks_from_nth [of _ message_limit 0 xs] by simp
  moreover have "message_limit < telegram_message_cap"
    by (simp add: message_limit_def telegram_message_cap_def)
  ultimately show ?thesis
    using chunks_from_bounds [of _ message_limit 0 xs]
    by (simp add: send_long_message_def)
qed


theorem send_long_message_chunks_witness:
  "send_long_message (replicate 9000 CHR ''a'') =
     [reply_text (replicate 4000 CHR ''a''), reply_text (replicate 4000 CHR ''a''),
      reply_text (replicate 1000 CHR ''a'')] \<and>
   length (chunks_from message_limit 0 (replicate 9000 CHR ''a'')) = 3 \<and>
   (9000 + message_limit - 1) div message_limit = 3"
  using send_long_message_chunks [of "replicate 9000 CHR ''a''"]
  by (simp add: send_long_message_def message_limit_def chunks_from.simps)

section \<open>Properties of the command handlers\<close>

text \<open>
  Claim C1 (the code departs from it). The claim asks for \<open>user -u <username> -p <password>\<close>
  in every local provisioning command, with \<open>-config <path>\<close> after \<open>user\<close> when a path is
  configured. The command built on line 193 is \<open>-u <username> -p <password>\<close> alone when no
  path is configured, without program name and subcommand, and \<open>readeck user -config <path>\<close>
  without the credentials when one is; the first is what the registration starts.
\<close>

theorem local_command_loses_arguments:
  "local_command None ''alice'' ''secret'' = [''-u'', ''alice'', ''-p'', ''secret''] \<and>
   local_command (Some ''/etc/readeck.toml'') ''alice'' ''secret'' =
     [''readeck'', ''user'', ''-config'', ''/etc/readeck.toml''] \<and>
   trace (register_and_fetch_token unreachable_env
       \<lparr>effective_user_id = 42, message_text = ''/register alice secret''\<rparr>
       ''alice'' ''secret'' empty_state) =
     [Subprocess [''-u'', ''alice'', ''-p'', ''secret'']]"
  by (simp add: local_command_def register_and_fetch_token_def unreachable_env_def
      after_def raises_def Let_def)

lemma register_command_usage:
  assumes "3 \<le> length as"
  shows "register_command E upd (Some as) s = returns s [reply_text register_usage]"
proof -
  obtain x y z rest where "as = x # y # z # rest"
    using assms by (cases as; cases "tl as"; cases "tl (tl as)") auto
  then show ?thesis by (simp add: register_command_def)
qed

text \<open>
  Claim C4. \<open>register_command\<close> with no argument registers the user id as name and password,
  with one argument the user id and that password, with two arguments that name and password;
  with three or more arguments it only replies with the usage text: no program is started, no
  request is sent and the state is unchanged.
\<close>

theorem register_command_arguments:
  "(args = None \<or> args = Some [] \<longrightarrow>
      register_command E upd args s =
        register_and_fetch_token E upd (str_int (effective_user_id upd))
          (str_int (effective_user_id upd)) s) \<and>
   (args = Some [a] \<longrightarrow>
      register_command E upd args s =
        register_and_fetch_token E upd (str_int (effective_user_id upd)) a s) \<and>
   (args = Some [a, b] \<longrightarrow>
      register_command E upd args s = register_and_fetch_token E upd a b s) \<and>
   ((\<exists>as. args = Some as \<and> 3 \<le> length as) \<longrightarrow>
      register_command E upd args s = returns s [reply_text register_usage] \<and>
      filter is_backend_call (trace (register_command E upd args s)) = [] \<and>
      final (register_command E upd args s) = s)"
proof (intro conjI impI)
  assume "args = None \<or> args = Some []"
  then show "register_command E upd args s =
      register_and_fetch_token E upd (str_int (effective_user_id upd))
        (str_int (effective_user_id upd)) s"
    by (auto simp: register_command_def Let_def)
next
  assume "args = Some [a]"
  then show "register_command E upd args s =
      register_and_fetch_token E upd (str_int (effective_user_id upd)) a s"
    by (simp add: register_command_def Let_def)
next
  assume "args = Some [a, b]"
  then show "register_command E upd args s = register_and_fetch_token E upd a b s"
    by (simp add: register_command_def Let_def)
next
  assume "\<exists>as. args = Some as \<and> 3 \<le> length as"
  then obtain as where as: "args = Some as" "3 \<le> length as" by blast
  show u: "register_command E upd args s = returns s [reply_text register_usage]"
    using as register_command_usage by simp
  show "filter is_backend_call (trace (register_command E upd args s)) = []"
    by (simp only: u) (simp add: returns_def reply_text_def)
  show "final (register_command E upd args s) = s"
    by (simp only: u) (simp add: returns_def)
qed

theorem register_command_arguments_witness:
  "register_command unreachable_env \<lparr>effective_user_id = 42, message_text = ''/register''\<rparr>
      None empty_state =
     \<lparr>final = empty_state, trace = [Subprocess [''-u'', ''42'', ''-p'', ''42'']],
      raised = Some OSError\<rparr> \<and>
   register_command unreachable_env \<lparr>effective_user_id = 42, message_text = ''/register pw''\<rparr>
      (Some [''pw'']) empty_state =
     \<lparr>final = empty_state, trace = [Subprocess [''-u'', ''42'', ''-p'', ''pw'']],
      raised = Some OSError\<rparr> \<and>
   register_command unreachable_env \<lparr>effective_user_id = 42, message_text = ''/register bob pw''\<rparr>
      (Some [''bob'', ''pw'']) empty_state =
     \<lparr>final = empty_state, trace = [Subprocess [''-u'', ''bob'', ''-p'', ''pw'']],
      raised = Some OSError\<rparr> \<and>
   register_command unreachable_env \<lparr>effective_user_id = 42, message_text = ''/register a b c''\<rparr>
      (Some [''a'', ''b'', ''c'']) empty_state =
     \<lparr>final = empty_state, trace = [Reply register_usage None], raised = None\<rparr>"
proof -
  have run: "register_and_fetch_token unreachable_env upd u p empty_state =
      \<lparr>final = empty_state, trace = [Subprocess [''-u'', u, ''-p'', p]], raised = Some OSError\<rparr>"
    for upd u p
    by (simp add: register_and_fetch_token_def local_command_def unreachable_env_def after_def
        raises_def Let_def)
  have id: "str_int 42 = ''42''"
    by (simp add: str_int_def str_nat.simps)
  note c0 = register_command_arguments [of None unreachable_env
      "\<lparr>effective_user_id = 42, message_text = ''/register''\<rparr>" empty_state "''x''" "''y''"]
  note c1 = register_command_arguments [of "Some [''pw'']" unreachable_env
      "\<lparr>effective_user_id = 42, message_text = ''/register pw''\<rparr>" empty_state "''pw''" "''y''"]
  note c2 = register_command_arguments [of "Some [''bob'', ''pw'']" unreachable_env
      "\<lparr>effective_user_id = 42, message_text = ''/register bob pw''\<rparr>" empty_state
      "''bob''" "''pw''"]
  note c3 = register_command_arguments [of "Some [''a'', ''b'', ''c'']" unreachable_env
      "\<lparr>effective_user_id = 42, message_text = ''/register a b c''\<rparr>" empty_state "''x''" "''y''"]
  have "register_command unreachable_env \<lparr>effective_user_id = 42, message_text = ''/register''\<rparr>
      None empty_state =
     \<lparr>final = empty_state, trace = [Subprocess [''-u'', ''42'', ''-p'', ''42'']],
      raised = Some OSError\<rparr>"
    using c0 by (simp add: run id)
  moreover have "register_command unreachable_env
      \<lparr>effective_user_id = 42, message_text = ''/register pw''\<rparr> (Some [''pw'']) empty_state =
     \<lparr>final = empty_state, trace = [Subprocess [''-u'', ''42'', ''-p'', ''pw'']],
      raised = Some OSError\<rparr>"
    using c1 by (simp add: run id)
  moreover have "register_command unreachable_env
      \<lparr>effective_user_id = 42, message_text = ''/register bob pw''\<rparr>
      (Some [''bob'', ''pw'']) empty_state =
     \<lparr>final = empty_state, trace = [Subprocess [''-u'', ''bob'', ''-p'', ''pw'']],
      raised = Some OSError\<rparr>"
    using c2 by (simp add: run id)
  moreover have "register_command unreachable_env
      \<lparr>effective_user_id = 42, message_text = ''/register a b c''\<rparr>
      (Some [''a'', ''b'', ''c'']) empty_state =
     \<lparr>final = empty_state, trace = [Reply register_usage None], raised = None\<rparr>"
    using c3 by (simp add: returns_def reply_text_def)
  ultimately show ?thesis by simp
qed

text \<open>
  Claim C10. \<open>token_command\<close> with no argument or with two or more replies with its usage text
  and changes nothing. With exactly one argument it stores that argument under the user id,
  replacing any earlier entry, writes the token file and only then confirms; it calls no
  backend. When the write fails nothing is confirmed.
\<close>

theorem token_command_arity:
  "(args = None \<or> (\<exists>as. args = Some as \<and> length as \<noteq> 1) \<longrightarrow>
      token_command E upd args s = returns s [reply_text ''Usage: /token <YOUR_READECK_TOKEN>'']) \<and>
   (args = Some [t] \<longrightarrow>
      tokens (final (token_command E upd args s)) =
        fmupd (str_int (effective_user_id upd)) (JStr t) (tokens s) \<and>
      PersistentDict_get (final (token_command E upd args s)) (str_int (effective_user_id upd)) =
        JStr t \<and>
      filter is_backend_call (trace (token_command E upd args s)) = [] \<and>
      (raised (token_command E upd args s) = None \<longrightarrow>
         trace (token_command E upd args s) =
           [WriteFile (JObj (fmupd (str_int (effective_user_id upd)) (JStr t) (tokens s))),
            reply_text ''Your Readeck token has been saved.'']) \<and>
      (raised (token_command E upd args s) \<noteq> None \<longrightarrow>
         trace (token_command E upd args s) =
           [WriteFile (JObj (fmupd (str_int (effective_user_id upd)) (JStr t) (tokens s)))]))"
proof -
  have usage: "token_command E upd (Some as) s =
      returns s [reply_text ''Usage: /token <YOUR_READECK_TOKEN>'']" if "length as \<noteq> 1" for as
    using that by (cases as; cases "tl as") (simp_all add: token_command_def)
  have none: "token_command E upd None s =
      returns s [reply_text ''Usage: /token <YOUR_READECK_TOKEN>'']"
    by (simp add: token_command_def)
  have one: "args = Some [t] \<Longrightarrow>
      tokens (final (token_command E upd args s)) =
        fmupd (str_int (effective_user_id upd)) (JStr t) (tokens s) \<and>
      PersistentDict_get (final (token_command E upd args s)) (str_int (effective_user_id upd)) =
        JStr t \<and>
      filter is_backend_call (trace (token_command E upd args s)) = [] \<and>
      (raised (token_command E upd args s) = None \<longrightarrow>
         trace (token_command E upd args s) =
           [WriteFile (JObj (fmupd (str_int (effective_user_id upd)) (JStr t) (tokens s))),
            reply_text ''Your Readeck token has been saved.'']) \<and>
      (raised (token_command E upd args s) \<noteq> None \<longrightarrow>
         trace (token_command E upd args s) =
           [WriteFile (JObj (fmupd (str_int (effective_user_id upd)) (JStr t) (tokens s)))])"
    by (simp add: token_command_def PersistentDict_setitem_def PersistentDict_save_def
        PersistentDict_get_def dict_get_def returns_def raises_def reply_text_def Let_def
        split: option.splits)
  show ?thesis using usage none one by blast
qed

theorem token_command_arity_witness:
  "token_command unreachable_env \<lparr>effective_user_id = 42, message_text = ''/token''\<rparr>
      (Some []) empty_state =
     \<lparr>final = empty_state, trace = [Reply ''Usage: /token <YOUR_READECK_TOKEN>'' None],
      raised = None\<rparr> \<and>
   token_command unreachable_env \<lparr>effective_user_id = 42, message_text = ''/token a b''\<rparr>
      (Some [''a'', ''b'']) empty_state =
     \<lparr>final = empty_state, trace = [Reply ''Usage: /token <YOUR_READECK_TOKEN>'' None],
      raised = None\<rparr> \<and>
   token_command unreachable_env \<lparr>effective_user_id = 42, message_text = ''/token abc''\<rparr>
      (Some [''abc'']) empty_state =
     \<lparr>final = \<lparr>tokens = fmupd ''42'' (JStr ''abc'') fmempty,
                disk = Document (JObj (fmupd ''42'' (JStr ''abc'') fmempty))\<rparr>,
      trace = [WriteFile (JObj (fmupd ''42'' (JStr ''abc'') fmempty)),
               Reply ''Your Readeck token has been saved.'' None],
      raised = None\<rparr>"
  using
    token_command_arity [of "Some []" unreachable_env
      "\<lparr>effective_user_id = 42, message_text = ''/token''\<rparr>" empty_state]
    token_command_arity [of "Some [''a'', ''b'']" unreachable_env
      "\<lparr>effective_user_id = 42, message_text = ''/token a b''\<rparr>" empty_state]
    token_command_arity [of "Some [''abc'']" unreachable_env
      "\<lparr>effective_user_id = 42, message_text = ''/token abc''\<rparr>" empty_state "''abc''"]
  by (simp add: token_command_def PersistentDict_setitem_def PersistentDict_save_def
      unreachable_env_def empty_state_def returns_def reply_text_def str_int_def str_nat.simps
      Let_def)

section \<open>Properties of the credential store\<close>

text \<open>
  Claim C6. After \<open>USER_TOKEN_MAP[u] = c\<close> a lookup of \<open>u\<close> gives \<open>c\<close> in the same process, and,
  when the write of the file succeeded, also in a new process that loads the file, whose
  entries are exactly those of the old one.
\<close>

theorem setitem_then_get:
  "fmlookup (tokens (final (PersistentDict_setitem E s u c))) u = Some c \<and>
   PersistentDict_get (final (PersistentDict_setitem E s u c)) u = c \<and>
   (raised (PersistentDict_setitem E s u c) = None \<longrightarrow>
      disk (final (PersistentDict_setitem E s u c)) = Document (JObj (fmupd u c (tokens s))) \<and>
      tokens (restart (final (PersistentDict_setitem E s u c))) =
        tokens (final (PersistentDict_setitem E s u c)) \<and>
      fmlookup (tokens (restart (final (PersistentDict_setitem E s u c)))) u = Some c \<and>
      PersistentDict_get (restart (final (PersistentDict_setitem E s u c))) u = c)"
  by (simp add: PersistentDict_setitem_def PersistentDict_save_def PersistentDict_get_def
      PersistentDict_init_def restart_def returns_def raises_def dict_get_def Let_def
      split: option.splits)

theorem setitem_then_get_witness:
  "raised (PersistentDict_setitem unreachable_env empty_state ''42'' (JStr ''tok'')) = None \<and>
   PersistentDict_get
     (restart (final (PersistentDict_setitem unreachable_env empty_state ''42'' (JStr ''tok''))))
     ''42'' = JStr ''tok''"
  using setitem_then_get [of unreachable_env empty_state "''42''" "JStr ''tok''"]
  by (simp add: PersistentDict_setitem_def PersistentDict_save_def unreachable_env_def
      returns_def Let_def)

section \<open>Properties of the registration\<close>

lemma fetch_token_posts_once:
  "filter is_http_post (trace (fetch_token E upd username password s)) =
     [HttpPost (auth_url E) auth_headers (auth_payload username password)]"
  by (simp add: fetch_token_def after_def returns_def raises_def reply_text_def Let_def
      PersistentDict_setitem_def PersistentDict_save_def
      split: option.splits json.splits)

lemma fetch_token_starts_with_post:
  "hd (trace (fetch_token E upd username password s)) =
     HttpPost (auth_url E) auth_headers (auth_payload username password)"
  by (simp add: fetch_token_def after_def Let_def)

text \<open>
  What holds when both programs can be started and run to their end: when the local command
  ends with a non-zero exit status, the next thing the registration does is to run the
  container command. If that ends with a non-zero status too, the registration replies with
  the container's stderr (stripped) and stops: no request is sent and the state is unchanged.
  If it ends with status 0, the token exchange follows at once and is the only POST of the run.
\<close>

lemma registration_fallback_order:
  assumes "subprocess_run E (local_command (READECK_CONFIG E) username password) = Some r1"
    and "returncode r1 \<noteq> 0"
    and "subprocess_run E (docker_command username password) = Some r2"
  shows "take 2 (trace (register_and_fetch_token E upd username password s)) =
       [Subprocess (local_command (READECK_CONFIG E) username password),
        Subprocess (docker_command username password)] \<and>
     (returncode r2 \<noteq> 0 \<longrightarrow>
        register_and_fetch_token E upd username password s =
          returns s [Subprocess (local_command (READECK_CONFIG E) username password),
            Subprocess (docker_command username password),
            reply_text (''Registration failed: '' @ strip (stderr r2))] \<and>
        filter is_http_post (trace (register_and_fetch_token E upd username password s)) = []) \<and>
     (returncode r2 = 0 \<longrightarrow>
        register_and_fetch_token E upd username password s =
          after [Subprocess (local_command (READECK_CONFIG E) username password),
                 Subprocess (docker_command username password)]
            (fetch_token E upd username password s) \<and>
        trace (register_and_fetch_token E upd username password s) ! 2 =
          HttpPost (auth_url E) auth_headers (auth_payload username password) \<and>
        filter is_http_post (trace (register_and_fetch_token E upd username password s)) =
          [HttpPost (auth_url E) auth_headers (auth_payload username password)])"
proof (cases "returncode r2 = 0")
  case False
  have "register_and_fetch_token E upd username password s =
      returns s [Subprocess (local_command (READECK_CONFIG E) username password),
        Subprocess (docker_command username password),
        reply_text (''Registration failed: '' @ strip (stderr r2))]"
    using assms False
    by (simp add: register_and_fetch_token_def after_def returns_def Let_def)
  then show ?thesis using False by (simp add: returns_def reply_text_def)
next
  case True
  have eq: "register_and_fetch_token E upd username password s =
      after [Subprocess (local_command (READECK_CONFIG E) username password),
             Subprocess (docker_command username password)]
        (fetch_token E upd username password s)"
    using assms True
    by (simp add: register_and_fetch_token_def after_def Let_def)
  have ne: "trace (fetch_token E upd username password s) \<noteq> []"
    by (simp add: fetch_token_def after_def Let_def)
  have third: "trace (register_and_fetch_token E upd username password s) ! 2 =
      HttpPost (auth_url E) auth_headers (auth_payload username password)"
    using fetch_token_starts_with_post [of E upd username password s] ne
    by (simp add: eq after_def hd_conv_nth)
  have posts: "filter is_http_post (trace (register_and_fetch_token E upd username password s)) =
      [HttpPost (auth_url E) auth_headers (auth_payload username password)]"
    using fetch_token_posts_once [of E upd username password s]
    by (simp add: eq after_def)
  have two: "take 2 (trace (register_and_fetch_token E upd username password s)) =
       [Subprocess (local_command (READECK_CONFIG E) username password),
        Subprocess (docker_command username password)]"
    by (simp add: eq after_def)
  show ?thesis using True eq third posts two by simp
qed

lemma strip_example:
  "strip (''docker: no such image'' @ [CHR 0x0A]) = ''docker: no such image''"
  by (simp add: strip_def lstrip_def rstrip_def isspace_def)

lemma registration_fallback_order_example:
  "register_and_fetch_token (example_env 1 1 None None) alice ''alice'' ''pw'' empty_state =
     \<lparr>final = empty_state,
      trace = [Subprocess [''-u'', ''alice'', ''-p'', ''pw''],
               Subprocess [''docker'', ''run'', ''codeberg.org/readeck/readeck:latest'',
                 ''readeck'', ''user'', ''-u'', ''alice'', ''-p'', ''pw''],
               Reply ''Registration failed: docker: no such image'' None],
      raised = None\<rparr> \<and>
   filter is_http_post
     (trace (register_and_fetch_token (example_env 1 0 None None) alice ''alice'' ''pw''
        empty_state)) =
     [HttpPost ''http://localhost:8000/api/auth'' auth_headers (auth_payload ''alice'' ''pw'')]"
proof -
  have cmds: "local_command (READECK_CONFIG (example_env a b p g)) ''alice'' ''pw'' =
      [''-u'', ''alice'', ''-p'', ''pw'']" for a b p g
    by (simp add: example_env_def unreachable_env_def local_command_def)
  have l: "subprocess_run (example_env a b p g) [''-u'', ''alice'', ''-p'', ''pw''] =
      Some \<lparr>returncode = a, stderr = ''readeck: no configuration'' @ [CHR 0x0A]\<rparr>" for a b p g
    by (simp add: example_env_def)
  have d: "subprocess_run (example_env a b p g) (docker_command ''alice'' ''pw'') =
      Some \<lparr>returncode = b, stderr = ''docker: no such image'' @ [CHR 0x0A]\<rparr>" for a b p g
    by (simp add: example_env_def docker_command_def)
  have u: "auth_url (example_env a b p g) = ''http://localhost:8000/api/auth''" for a b p g
    by (simp add: auth_url_def example_env_def unreachable_env_def)
  note fail = registration_fallback_order [of "example_env 1 1 None None" "''alice''" "''pw''"
      "\<lparr>returncode = 1, stderr = ''readeck: no configuration'' @ [CHR 0x0A]\<rparr>"
      "\<lparr>returncode = 1, stderr = ''docker: no such image'' @ [CHR 0x0A]\<rparr>" alice empty_state]
  note ok = registration_fallback_order [of "example_env 1 0 None None" "''alice''" "''pw''"
      "\<lparr>returncode = 1, stderr = ''readeck: no configuration'' @ [CHR 0x0A]\<rparr>"
      "\<lparr>returncode = 0, stderr = ''docker: no such image'' @ [CHR 0x0A]\<rparr>" alice empty_state]
  have "register_and_fetch_token (example_env 1 1 None None) alice ''alice'' ''pw'' empty_state =
     \<lparr>final = empty_state,
      trace = [Subprocess [''-u'', ''alice'', ''-p'', ''pw''],
               Subprocess [''docker'', ''run'', ''codeberg.org/readeck/readeck:latest'',
                 ''readeck'', ''user'', ''-u'', ''alice'', ''-p'', ''pw''],
               Reply ''Registration failed: docker: no such image'' None],
      raised = None\<rparr>"
    using fail strip_example
    by (simp add: cmds l d returns_def reply_text_def) (simp add: docker_command_def)
  moreover have "filter is_http_post
     (trace (register_and_fetch_token (example_env 1 0 None None) alice ''alice'' ''pw''
        empty_state)) =
     [HttpPost ''http://localhost:8000/api/auth'' auth_headers (auth_payload ''alice'' ''pw'')]"
  proof -
    have ok': "subprocess_run (example_env 1 0 None None)
          (local_command (READECK_CONFIG (example_env 1 0 None None)) ''alice'' ''pw'') =
        Some \<lparr>returncode = 1, stderr = ''readeck: no configuration'' @ [CHR 0x0A]\<rparr>"
      by (simp only: cmds l)
    have rc1: "returncode \<lparr>returncode = 1, stderr = ''readeck: no configuration'' @ [CHR 0x0A]\<rparr>
        \<noteq> 0" by simp
    have rc2: "returncode \<lparr>returncode = 0, stderr = ''docker: no such image'' @ [CHR 0x0A]\<rparr>
        = 0" by simp
    note all = ok [OF ok' rc1 d]
    have "filter is_http_post
       (trace (register_and_fetch_token (example_env 1 0 None None) alice ''alice'' ''pw''
          empty_state)) =
       [HttpPost (auth_url (example_env 1 0 None None)) auth_headers
          (auth_payload ''alice'' ''pw'')]"
      using all [THEN conjunct2, THEN conjunct2, THEN mp, OF rc2, THEN conjunct2,
          THEN conjunct2] .
    then show ?thesis by (simp only: u)
  qed
  ultimately show ?thesis by simp
qed

text \<open>
  Claim C3 (the code departs from it). The claim, like the docstring of
  \<open>register_and_fetch_token\<close>, wants the container attempt whenever the local attempt fails, and
  the container's stderr reported when both fail. A local program that cannot be started makes
  \<open>subprocess.run\<close> raise, and nothing catches it: the registration ends with the exception
  after the one local attempt, although the container command would have succeeded. Without a
  configuration path the command of line 193 names no program, so this is the outcome in the
  default configuration. Likewise, when the local command ends with status 1 and the container
  program cannot be started, the registration ends with the exception and sends no reply.
\<close>

theorem registration_raises_without_fallback:
  "subprocess_run missing_cli_env (docker_command ''alice'' ''secret'') =
     Some \<lparr>returncode = 0, stderr = []\<rparr> \<and>
   register_and_fetch_token missing_cli_env alice ''alice'' ''secret'' empty_state =
     \<lparr>final = empty_state, trace = [Subprocess [''-u'', ''alice'', ''-p'', ''secret'']],
      raised = Some OSError\<rparr> \<and>
   register_and_fetch_token missing_docker_env alice ''alice'' ''secret'' empty_state =
     \<lparr>final = empty_state,
      trace = [Subprocess [''readeck'', ''user'', ''-config'', ''/etc/readeck.toml''],
               Subprocess [''docker'', ''run'', ''codeberg.org/readeck/readeck:latest'',
                 ''readeck'', ''user'', ''-u'', ''alice'', ''-p'', ''secret'']],
      raised = Some OSError\<rparr>"
  by (simp add: register_and_fetch_token_def local_command_def docker_command_def
      missing_cli_env_def missing_docker_env_def unreachable_env_def after_def raises_def
      Let_def)

lemma provisioned_register:
  assumes "provisioning_succeeds E username password"
  shows "\<exists>before. filter is_reply before = [] \<and> filter is_write before = [] \<and>
     register_and_fetch_token E upd username password s =
       after before (fetch_token E upd username password s)"
proof (cases "subprocess_run E (local_command (READECK_CONFIG E) username password)")
  case None
  then show ?thesis using assms by (simp add: provisioning_succeeds_def)
next
  case (Some r1)
  show ?thesis
  proof (cases "returncode r1 = 0")
    case True
    then have "register_and_fetch_token E upd username password s =
        after [Subprocess (local_command (READECK_CONFIG E) username password)]
          (fetch_token E upd username password s)"
      using Some by (simp add: register_and_fetch_token_def Let_def)
    then show ?thesis
      by (intro exI [of _ "[Subprocess (local_command (READECK_CONFIG E) username password)]"])
         simp
  next
    case False
    then obtain r2 where r2: "subprocess_run E (docker_command username password) = Some r2"
        "returncode r2 = 0"
      using assms Some by (auto simp: provisioning_succeeds_def split: option.splits)
    then have "register_and_fetch_token E upd username password s =
        after [Subprocess (local_command (READECK_CONFIG E) username password),
               Subprocess (docker_command username password)]
          (fetch_token E upd username password s)"
      using Some False by (simp add: register_and_fetch_token_def Let_def after_def)
    then show ?thesis
      by (intro exI [of _ "[Subprocess (local_command (READECK_CONFIG E) username password),
               Subprocess (docker_command username password)]"]) simp
  qed
qed

lemma fetch_token_missing:
  assumes "requests_post E (auth_url E) auth_headers (auth_payload username password) = Some r"
    and "200 \<le> status_code r" "status_code r < 300"
    and "json_body r = Some (JObj data)"
    and "\<not> truthy (dict_get data ''token'')"
  shows "fetch_token E upd username password s =
     returns s [HttpPost (auth_url E) auth_headers (auth_payload username password),
       reply_text ''Registration succeeded but failed to retrieve token.'']"
  using assms by (simp add: fetch_token_def after_def returns_def Let_def)

lemma fetch_token_present:
  assumes "requests_post E (auth_url E) auth_headers (auth_payload username password) = Some r"
    and "200 \<le> status_code r" "status_code r < 300"
    and "json_body r = Some (JObj data)"
    and "truthy (dict_get data ''token'')"
  shows "fetch_token E upd username password s =
     after [HttpPost (auth_url E) auth_headers (auth_payload username password)]
       (let w = PersistentDict_setitem E s (str_int (effective_user_id upd))
                  (dict_get data ''token'')
        in case raised w of
             Some e \<Rightarrow> w
           | None \<Rightarrow> returns (final w) (trace w @
               [reply_text ''Registration successful! Your token has been saved.'']))"
  using assms by (simp add: fetch_token_def Let_def)

text \<open>
  Claim C5. After a successful provisioning, when the auth endpoint answers with a 2xx status
  and a JSON object: if the object has no \<open>token\<close> entry, or one that Python counts as false, the
  only reply is that the registration succeeded but no token could be retrieved, nothing is
  written and the state is unchanged; otherwise the token is stored under the user id of the
  requester, whatever the username was, and the file is written with it.
\<close>

theorem token_exchange_outcome:
  assumes "provisioning_succeeds E username password"
    and "requests_post E (auth_url E) auth_headers (auth_payload username password) = Some r"
    and "200 \<le> status_code r" "status_code r < 300"
    and "json_body r = Some (JObj data)"
  shows "(\<not> truthy (dict_get data ''token'') \<longrightarrow>
        final (register_and_fetch_token E upd username password s) = s \<and>
        raised (register_and_fetch_token E upd username password s) = None \<and>
        filter is_write (trace (register_and_fetch_token E upd username password s)) = [] \<and>
        filter is_reply (trace (register_and_fetch_token E upd username password s)) =
          [reply_text ''Registration succeeded but failed to retrieve token.''] \<and>
        ''Registration succeeded but failed to retrieve token.'' \<noteq>
          ''Having troubles now... try later.'') \<and>
     (truthy (dict_get data ''token'') \<longrightarrow>
        tokens (final (register_and_fetch_token E upd username password s)) =
          fmupd (str_int (effective_user_id upd)) (dict_get data ''token'') (tokens s) \<and>
        filter is_write (trace (register_and_fetch_token E upd username password s)) =
          [WriteFile (JObj (fmupd (str_int (effective_user_id upd)) (dict_get data ''token'')
             (tokens s)))] \<and>
        (raised (register_and_fetch_token E upd username password s) = None \<longrightarrow>
           disk (final (register_and_fetch_token E upd username password s)) =
             Document (JObj (fmupd (str_int (effective_user_id upd)) (dict_get data ''token'')
               (tokens s))) \<and>
           filter is_reply (trace (register_and_fetch_token E upd username password s)) =
             [reply_text ''Registration successful! Your token has been saved.'']))"
proof -
  obtain before where b: "filter is_reply before = []" "filter is_write before = []"
      "register_and_fetch_token E upd username password s =
         after before (fetch_token E upd username password s)"
    using provisioned_register [OF assms(1)] by blast
  show ?thesis
  proof (cases "truthy (dict_get data ''token'')")
    case False
    show ?thesis
      using False b(1,2)
      by (simp add: b(3) fetch_token_missing [OF assms(2-5) False] after_def returns_def
          reply_text_def)
  next
    case True
    show ?thesis
      using True b(1,2)
      by (simp add: b(3) fetch_token_present [OF assms(2-5) True] after_def returns_def
          raises_def reply_text_def PersistentDict_setitem_def PersistentDict_save_def Let_def
          split: option.splits)
  qed
qed

theorem token_exchange_outcome_witness:
  "fmlookup (tokens (final (register_and_fetch_token
       (example_env 1 0 (Some (json_response 200 [(''token'', JStr ''T0K3N'')])) None)
       alice ''alice'' ''pw'' empty_state))) ''42'' = Some (JStr ''T0K3N'') \<and>
   fmlookup (tokens (final (register_and_fetch_token
       (example_env 1 0 (Some (json_response 200 [(''token'', JStr ''T0K3N'')])) None)
       alice ''alice'' ''pw'' empty_state))) ''alice'' = None \<and>
   final (register_and_fetch_token
       (example_env 0 0 (Some (json_response 200 [(''user'', JStr ''alice'')])) None)
       alice ''alice'' ''pw'' empty_state) = empty_state \<and>
   filter is_reply (trace (register_and_fetch_token
       (example_env 0 0 (Some (json_response 200 [(''user'', JStr ''alice'')])) None)
       alice ''alice'' ''pw'' empty_state)) =
     [Reply ''Registration succeeded but failed to retrieve token.'' None]"
proof -
  have cmds: "local_command (READECK_CONFIG (example_env a b p g)) ''alice'' ''pw'' =
      [''-u'', ''alice'', ''-p'', ''pw'']" for a b p g
    by (simp add: example_env_def unreachable_env_def local_command_def)
  have prov: "provisioning_succeeds (example_env a 0 p g) ''alice'' ''pw''" for a p g
    by (simp add: provisioning_succeeds_def cmds) (simp add: example_env_def docker_command_def)
  have post: "requests_post (example_env a b (Some r) g) (auth_url (example_env a b (Some r) g))
      auth_headers (auth_payload ''alice'' ''pw'') = Some r" for a b r g
    by (simp add: example_env_def)
  have st: "200 \<le> status_code (json_response 200 entries)"
      "status_code (json_response 200 entries) < 300"
      "json_body (json_response 200 entries) = Some (JObj (fmap_of_list entries))" for entries
    by (simp_all add: json_response_def)
  have yes: "dict_get (fmap_of_list [(''token'', JStr ''T0K3N'')]) ''token'' = JStr ''T0K3N''"
    by (simp add: dict_get_def fmlookup_of_list)
  have no: "dict_get (fmap_of_list [(''user'', JStr ''alice'')]) ''token'' = JNull"
    by (simp add: dict_get_def fmlookup_of_list)
  have uid: "str_int (effective_user_id alice) = ''42''"
    by (simp add: alice_def str_int_def str_nat.simps)
  have stored: "tokens (final (register_and_fetch_token
       (example_env 1 0 (Some (json_response 200 [(''token'', JStr ''T0K3N'')])) None)
       alice ''alice'' ''pw'' empty_state)) = fmupd ''42'' (JStr ''T0K3N'') (tokens empty_state)"
    using token_exchange_outcome [where E = "example_env 1 0
          (Some (json_response 200 [(''token'', JStr ''T0K3N'')])) None"
        and username = "''alice''" and password = "''pw''"
        and r = "json_response 200 [(''token'', JStr ''T0K3N'')]"
        and data = "fmap_of_list [(''token'', JStr ''T0K3N'')]"
        and upd = alice and s = empty_state, OF prov post st]
    by (simp add: dict_get_def uid)
  have missing: "final (register_and_fetch_token
       (example_env 0 0 (Some (json_response 200 [(''user'', JStr ''alice'')])) None)
       alice ''alice'' ''pw'' empty_state) = empty_state \<and>
     filter is_reply (trace (register_and_fetch_token
       (example_env 0 0 (Some (json_response 200 [(''user'', JStr ''alice'')])) None)
       alice ''alice'' ''pw'' empty_state)) =
     [reply_text ''Registration succeeded but failed to retrieve token.'']"
    using token_exchange_outcome [where E = "example_env 0 0
          (Some (json_response 200 [(''user'', JStr ''alice'')])) None"
        and username = "''alice''" and password = "''pw''"
        and r = "json_response 200 [(''user'', JStr ''alice'')]"
        and data = "fmap_of_list [(''user'', JStr ''alice'')]"
        and upd = alice and s = empty_state, OF prov post st]
    by (simp add: dict_get_def)
  have "tokens (final (register_and_fetch_token
       (example_env 1 0 (Some (json_response 200 [(''token'', JStr ''T0K3N'')])) None)
       alice ''alice'' ''pw'' empty_state)) = fmupd ''42'' (JStr ''T0K3N'') (tokens empty_state)"
    using stored .
  then have a: "fmlookup (tokens (final (register_and_fetch_token
       (example_env 1 0 (Some (json_response 200 [(''token'', JStr ''T0K3N'')])) None)
       alice ''alice'' ''pw'' empty_state))) ''42'' = Some (JStr ''T0K3N'')"
     and b: "fmlookup (tokens (final (register_and_fetch_token
       (example_env 1 0 (Some (json_response 200 [(''token'', JStr ''T0K3N'')])) None)
       alice ''alice'' ''pw'' empty_state))) ''alice'' = None"
    by (simp_all add: empty_state_def)
  have c: "final (register_and_fetch_token
       (example_env 0 0 (Some (json_response 200 [(''user'', JStr ''alice'')])) None)
       alice ''alice'' ''pw'' empty_state) = empty_state \<and>
   filter is_reply (trace (register_and_fetch_token
       (example_env 0 0 (Some (json_response 200 [(''user'', JStr ''alice'')])) None)
       alice ''alice'' ''pw'' empty_state)) =
     [Reply ''Registration succeeded but failed to retrieve token.'' None]"
    using missing by (simp add: reply_text_def)
  show ?thesis using a b c by simp
qed

section \<open>Properties of save_bookmark\<close>




section \<open>Properties of the URL search\<close>

lemma match_url_scheme:
  "match_url s = Some u \<Longrightarrow> prefix ''http://'' s \<or> prefix ''https://'' s"
  by (auto simp: match_url_def Let_def split: if_splits)

lemma match_url_not_Nil: "match_url s = Some u \<Longrightarrow> u \<noteq> []"
  by (auto simp: match_url_def Let_def split: if_splits)

lemma re_search_url_scheme: "re_search_url t = Some u \<Longrightarrow> re_search_scheme t"
proof (induction t)
  case Nil
  then show ?case by simp
next
  case (Cons c cs)
  show ?case
  proof (cases "match_url (c # cs)")
    case None
    then show ?thesis using Cons by simp
  next
    case (Some v)
    then show ?thesis using match_url_scheme [OF Some] by auto
  qed
qed

lemma re_search_url_not_Nil: "re_search_url t = Some u \<Longrightarrow> u \<noteq> []"
  by (induction t) (auto simp: match_url_not_Nil split: option.splits)


lemma extract_Some:
  "extract_url_title_labels t = (Some url, title, labels) \<Longrightarrow> re_search_url t = Some url"
  by (simp add: extract_url_title_labels_def Let_def split: option.splits)

section \<open>Properties of handle_message\<close>

text \<open>
  Claim C9, as the claim states it, fails: for a text without a URL the parser gives none, but
  a user without a credential is told that the token is missing, and a user with a credential
  is told that the input is not recognized; neither gets the "no URL found" message.
\<close>

theorem handle_message_parser_first_counterexample:
  "extract_url_title_labels ''hello'' = (None, None, []) \<and>
   handle_message unreachable_env \<lparr>effective_user_id = 42, message_text = ''hello''\<rparr> empty_state =
     returns empty_state [reply_text no_token_message] \<and>
   handle_message unreachable_env \<lparr>effective_user_id = 42, message_text = ''hello''\<rparr> alice_state =
     returns alice_state [reply_text unrecognized_input_message] \<and>
   no_token_message \<noteq> no_url_message \<and> unrecognized_input_message \<noteq> no_url_message"
  by (simp add: extract_url_title_labels_def handle_message_def PersistentDict_get_def
      dict_get_def empty_state_def alice_state_def strip_def lstrip_def rstrip_def isspace_def
      match_url_def str_int_def str_nat.simps Let_def no_token_message_def no_url_message_def
      unrecognized_input_message_def)

text \<open>
  Claim C9, amended. \<open>handle_message\<close> asks for the stored credential first: without one (or
  with one that Python counts as false) the reply is the "no credential" message whatever the
  text holds. With a credential, a stripped text without \<open>http://\<close> or \<open>https://\<close> (for which
  the parser gives none) is answered with the "not recognized" message; a text with such a
  scheme in which the parser finds no URL is answered with the "no URL found" message; and when
  the parser finds a URL, \<open>save_bookmark\<close> is called with the parsed URL, title and labels and
  the stored credential.
\<close>

theorem handle_message_cases:
  "(\<not> truthy (PersistentDict_get s (str_int (effective_user_id upd))) \<longrightarrow>
      handle_message E upd s = returns s [reply_text no_token_message]) \<and>
   (truthy (PersistentDict_get s (str_int (effective_user_id upd))) \<and>
    \<not> re_search_scheme (strip (message_text upd)) \<longrightarrow>
      extract_url_title_labels (strip (message_text upd)) = (None, None, []) \<and>
      handle_message E upd s = returns s [reply_text unrecognized_input_message]) \<and>
   (truthy (PersistentDict_get s (str_int (effective_user_id upd))) \<and>
    re_search_scheme (strip (message_text upd)) \<and>
    fst (extract_url_title_labels (strip (message_text upd))) = None \<longrightarrow>
      handle_message E upd s = returns s [reply_text no_url_message]) \<and>
   (truthy (PersistentDict_get s (str_int (effective_user_id upd))) \<and>
    extract_url_title_labels (strip (message_text upd)) = (Some url, title, labels) \<longrightarrow>
      handle_message E upd s =
        save_bookmark E upd url title labels
          (PersistentDict_get s (str_int (effective_user_id upd))) s)"
proof (intro conjI impI)
  assume "\<not> truthy (PersistentDict_get s (str_int (effective_user_id upd)))"
  then show "handle_message E upd s = returns s [reply_text no_token_message]"
    by (simp add: handle_message_def Let_def)
next
  assume a: "truthy (PersistentDict_get s (str_int (effective_user_id upd))) \<and>
    \<not> re_search_scheme (strip (message_text upd))"
  then have "re_search_url (strip (message_text upd)) = None"
    using re_search_url_scheme by (cases "re_search_url (strip (message_text upd))") auto
  then show "extract_url_title_labels (strip (message_text upd)) = (None, None, [])"
    by (simp add: extract_url_title_labels_def)
  show "handle_message E upd s = returns s [reply_text unrecognized_input_message]"
    using a by (simp add: handle_message_def Let_def)
next
  assume a: "truthy (PersistentDict_get s (str_int (effective_user_id upd))) \<and>
    re_search_scheme (strip (message_text upd)) \<and>
    fst (extract_url_title_labels (strip (message_text upd))) = None"
  then show "handle_message E upd s = returns s [reply_text no_url_message]"
    by (cases "extract_url_title_labels (strip (message_text upd))")
       (simp add: handle_message_def Let_def)
next
  assume a: "truthy (PersistentDict_get s (str_int (effective_user_id upd))) \<and>
    extract_url_title_labels (strip (message_text upd)) = (Some url, title, labels)"
  then have u: "re_search_url (strip (message_text upd)) = Some url"
    using extract_Some by blast
  have "re_search_scheme (strip (message_text upd))" "url \<noteq> []"
    using re_search_url_scheme [OF u] re_search_url_not_Nil [OF u] by simp_all
  then show "handle_message E upd s =
      save_bookmark E upd url title labels
        (PersistentDict_get s (str_int (effective_user_id upd))) s"
    using a by (simp add: handle_message_def Let_def)
qed

theorem handle_message_cases_witness:
  "handle_message unreachable_env
     \<lparr>effective_user_id = 42, message_text = ''https://x.com/a Title''\<rparr> empty_state =
     \<lparr>final = empty_state, trace = [Reply no_token_message None], raised = None\<rparr> \<and>
   handle_message unreachable_env
     \<lparr>effective_user_id = 42, message_text = ''hello''\<rparr> alice_state =
     \<lparr>final = alice_state, trace = [Reply unrecognized_input_message None], raised = None\<rparr> \<and>
   handle_message unreachable_env
     \<lparr>effective_user_id = 42, message_text = ''see http:// now''\<rparr> alice_state =
     \<lparr>final = alice_state, trace = [Reply no_url_message None], raised = None\<rparr> \<and>
   handle_message unreachable_env
     \<lparr>effective_user_id = 42, message_text = '' https://x.com/a Title Here +news +tech ''\<rparr>
     alice_state =
     \<lparr>final = alice_state,
      trace = [HttpPost ''http://localhost:8000/api/bookmarks''
                 [(''Authorization'', ''Bearer tok''), (''accept'', ''application/json''),
                  (''content-type'', ''application/json'')]
                 (bookmark_data ''https://x.com/a'' (Some ''Title Here'') [''news'', ''tech'']),
               Reply ''Having troubles now... try later.'' None],
      raised = None\<rparr>"
proof -
  have uid: "str_int 42 = ''42''"
    by (simp add: str_int_def str_nat.simps)
  have no_tok: "\<not> truthy (PersistentDict_get empty_state ''42'')"
    by (simp add: PersistentDict_get_def dict_get_def empty_state_def)
  have tok: "PersistentDict_get alice_state ''42'' = JStr ''tok''"
    by (simp add: PersistentDict_get_def dict_get_def alice_state_def)
  have s1: "strip ''hello'' = ''hello''"
    and s2: "strip ''see http:// now'' = ''see http:// now''"
    and s3: "strip '' https://x.com/a Title Here +news +tech '' =
        ''https://x.com/a Title Here +news +tech''"
    by (simp_all add: strip_def lstrip_def rstrip_def isspace_def)
  have e2: "extract_url_title_labels ''see http:// now'' = (None, None, [])"
    by (simp add: extract_url_title_labels_def match_url_def isspace_def)
  have e3: "extract_url_title_labels ''https://x.com/a Title Here +news +tech'' =
      (Some ''https://x.com/a'', Some ''Title Here'', [''news'', ''tech''])"
    by (simp add: extract_url_title_labels_def match_url_def strip_def lstrip_def rstrip_def
        isspace_def isword_def Let_def)
  have "handle_message unreachable_env
     \<lparr>effective_user_id = 42, message_text = ''https://x.com/a Title''\<rparr> empty_state =
     \<lparr>final = empty_state, trace = [Reply no_token_message None], raised = None\<rparr>"
    using handle_message_cases [where s = empty_state and E = unreachable_env
        and upd = "\<lparr>effective_user_id = 42, message_text = ''https://x.com/a Title''\<rparr>"
        and url = "[]" and title = None and labels = "[]"]
    by (simp add: uid no_tok returns_def reply_text_def)
  moreover have "handle_message unreachable_env
     \<lparr>effective_user_id = 42, message_text = ''hello''\<rparr> alice_state =
     \<lparr>final = alice_state, trace = [Reply unrecognized_input_message None], raised = None\<rparr>"
    using handle_message_cases [where s = alice_state and E = unreachable_env
        and upd = "\<lparr>effective_user_id = 42, message_text = ''hello''\<rparr>"
        and url = "[]" and title = None and labels = "[]"]
    by (simp add: uid tok s1 returns_def reply_text_def)
  moreover have "handle_message unreachable_env
     \<lparr>effective_user_id = 42, message_text = ''see http:// now''\<rparr> alice_state =
     \<lparr>final = alice_state, trace = [Reply no_url_message None], raised = None\<rparr>"
    using handle_message_cases [where s = alice_state and E = unreachable_env
        and upd = "\<lparr>effective_user_id = 42, message_text = ''see http:// now''\<rparr>"
        and url = "[]" and title = None and labels = "[]"]
    by (simp add: uid tok s2 e2 returns_def reply_text_def)
  moreover have "handle_message unreachable_env
     \<lparr>effective_user_id = 42, message_text = '' https://x.com/a Title Here +news +tech ''\<rparr>
     alice_state =
     \<lparr>final = alice_state,
      trace = [HttpPost ''http://localhost:8000/api/bookmarks''
                 [(''Authorization'', ''Bearer tok''), (''accept'', ''application/json''),
                  (''content-type'', ''application/json'')]
                 (bookmark_data ''https://x.com/a'' (Some ''Title Here'') [''news'', ''tech'']),
               Reply ''Having troubles now... try later.'' None],
      raised = None\<rparr>"
    using handle_message_cases [where s = alice_state and E = unreachable_env
        and upd = "\<lparr>effective_user_id = 42,
                     message_text = '' https://x.com/a Title Here +news +tech ''\<rparr>"
        and url = "''https://x.com/a''" and title = "Some ''Title Here''"
        and labels = "[''news'', ''tech'']"]
    by (simp add: uid tok s3 e3)
       (simp add: save_bookmark_def unreachable_env_def bearer_headers_def format_value_def
          after_def returns_def reply_text_def Let_def)
  ultimately show ?thesis by simp
qed

section \<open>Properties of the URL split\<close>













section \<open>Properties of the tag tokens\<close>


















section \<open>Properties of str_replace and strip\<close>

lemma space_not_word: "isspace c \<Longrightarrow> \<not> isword c"
  by (auto simp: isspace_def isword_def)









lemma starts_nonword_spaces: "list_all isspace ws \<Longrightarrow> starts_nonword (ws @ x) \<or> ws = []"
  by (cases ws) (auto simp: starts_nonword_def space_not_word)













section \<open>Properties of extract_url_title_labels\<close>




end
